theory Spec2Isabelle
  imports Main
begin

section \<open>Python values, comparison operators, runtime errors\<close>

text \<open>
  The values that reach the filter are integers (product ids, carbon footprints), strings
  (names, addresses) and booleans (\<open>isEnded\<close>). Python's \<open>bool\<close> is a
  subclass of \<open>int\<close>: \<open>True == 1\<close>, \<open>hash(True) == hash(1)\<close> and
  \<open>True > 0\<close>, so for every operation \<open>Filter.py\<close> performs (the five
  comparison operators, \<open>in\<close>, \<open>list.remove\<close>, \<open>set\<close>) a boolean
  behaves as the integer 0 or 1, and it is modelled as that integer. Equality of
  \<open>pyval\<close> is then Python's \<open>==\<close>.
\<close>

datatype pyval = PInt int | PStr string

definition PBool :: "bool \<Rightarrow> pyval" where
  "PBool b = PInt (if b then 1 else 0)"

text \<open>The exceptions the filter code can raise.\<close>

datatype py_error = AttributeError | KeyError | TypeError | ValueError

text \<open>
  \<open>operator.eq\<close>, \<open>operator.gt\<close>, \<open>operator.ge\<close>, \<open>operator.lt\<close>,
  \<open>operator.le\<close>: the values \<open>select_operator\<close> returns.
\<close>

datatype cmp_op = op_eq | op_gt | op_ge | op_lt | op_le

text \<open>
  Python orders strings lexicographically by code point. A \<open>string\<close> here is the
  UTF-8 byte sequence, whose bytewise lexicographic order is the order of the code points.
\<close>

fun str_lt :: "string \<Rightarrow> string \<Rightarrow> bool" where
  "str_lt [] [] = False"
| "str_lt [] (y # ys) = True"
| "str_lt (x # xs) [] = False"
| "str_lt (x # xs) (y # ys) =
     ((of_char x :: nat) < of_char y \<or> (x = y \<and> str_lt xs ys))"

definition str_le :: "string \<Rightarrow> string \<Rightarrow> bool" where
  "str_le a b = (a = b \<or> str_lt a b)"

text \<open>
  An ordering comparison is defined between two integers and between two strings; between
  an integer and a string Python raises \<open>TypeError\<close>. Equality never raises: values of
  different types are unequal.
\<close>

fun apply_operator :: "cmp_op \<Rightarrow> pyval \<Rightarrow> pyval \<Rightarrow> py_error + bool" where
  "apply_operator op_eq a b = Inr (a = b)"
| "apply_operator op_gt (PInt a) (PInt b) = Inr (a > b)"
| "apply_operator op_gt (PStr a) (PStr b) = Inr (str_lt b a)"
| "apply_operator op_ge (PInt a) (PInt b) = Inr (a \<ge> b)"
| "apply_operator op_ge (PStr a) (PStr b) = Inr (str_le b a)"
| "apply_operator op_lt (PInt a) (PInt b) = Inr (a < b)"
| "apply_operator op_lt (PStr a) (PStr b) = Inr (str_lt a b)"
| "apply_operator op_le (PInt a) (PInt b) = Inr (a \<le> b)"
| "apply_operator op_le (PStr a) (PStr b) = Inr (str_le a b)"
| "apply_operator _ _ _ = Inl TypeError"

section \<open>Records and criteria\<close>

text \<open>
  A candidate record is the table of names the filter reads it through: for a product
  object (the entity source) its attributes, read by \<open>getattr(e, name)\<close>; for an event
  log (the event source) its \<open>args\<close> dictionary, read by \<open>e["args"][name]\<close>.
  A missing attribute raises \<open>AttributeError\<close>, a missing key \<open>KeyError\<close>.
\<close>

type_synonym pyrecord = "string \<rightharpoonup> pyval"

definition getattr :: "pyrecord \<Rightarrow> string \<Rightarrow> py_error + pyval" where
  "getattr e name = (case e name of None \<Rightarrow> Inl AttributeError | Some v \<Rightarrow> Inr v)"

definition args_getitem :: "pyrecord \<Rightarrow> string \<Rightarrow> py_error + pyval" where
  "args_getitem e name = (case e name of None \<Rightarrow> Inl KeyError | Some v \<Rightarrow> Inr v)"

text \<open>
  The \<open>criteria\<close> dictionary. \<open>elements\<close> is the sequence that the call
  \<open>criteria["elements"]()\<close> returns (the ledger reader and the event log reader are not
  part of the filter); \<open>cvalue\<close> is the entry \<open>"value"\<close>.
\<close>

record criteria =
  elements :: "pyrecord list"
  cvalue :: pyval
  field :: string
  operator :: cmp_op
  event :: bool

section \<open>The store of list objects\<close>

text \<open>
  Python lists are mutable objects and \<open>Filter.py\<close> mutates them in place
  (\<open>append\<close>, \<open>remove\<close>), so a list variable is a reference into a store.
  \<open>top\<close> is the next unused address.
\<close>

record heap =
  cells :: "nat \<Rightarrow> pyval list"
  top :: nat

definition new_list :: "pyval list \<Rightarrow> heap \<Rightarrow> nat \<times> heap" where
  "new_list xs h = (top h, h\<lparr>cells := (cells h)(top h := xs), top := Suc (top h)\<rparr>)"

definition list_append :: "nat \<Rightarrow> pyval \<Rightarrow> heap \<Rightarrow> heap" where
  "list_append r x h = h\<lparr>cells := (cells h)(r := cells h r @ [x])\<rparr>"

text \<open>\<open>list.remove(x)\<close> deletes the first item equal to \<open>x\<close> and raises
  \<open>ValueError\<close> when there is none.\<close>

definition list_remove :: "nat \<Rightarrow> pyval \<Rightarrow> heap \<Rightarrow> py_error + heap" where
  "list_remove r x h =
     (if x \<in> set (cells h r) then Inr (h\<lparr>cells := (cells h)(r := remove1 x (cells h r))\<rparr>)
      else Inl ValueError)"

section \<open>\<open>simpleFilter\<close>, \<open>orFilter\<close>, \<open>andFilter\<close>\<close>

text \<open>
  A call returns its outcome (\<open>Inl\<close> the exception raised, \<open>Inr\<close> the value
  returned) together with the store as the call leaves it; an exception leaves the store
  as it was when it was raised.
\<close>

text \<open>The loop of \<open>simpleFilter\<close> over event logs (lines 15-17).\<close>

fun event_loop :: "criteria \<Rightarrow> nat \<Rightarrow> pyrecord list \<Rightarrow> heap \<Rightarrow> (py_error + unit) \<times> heap" where
  "event_loop c result [] h = (Inr (), h)"
| "event_loop c result (e # es) h =
     (case args_getitem e (field c) of
        Inl err \<Rightarrow> (Inl err, h)
      | Inr v \<Rightarrow>
         (case apply_operator (operator c) v (cvalue c) of
            Inl err \<Rightarrow> (Inl err, h)
          | Inr b \<Rightarrow>
             if b then
               (case args_getitem e ''pId'' of
                  Inl err \<Rightarrow> (Inl err, h)
                | Inr p \<Rightarrow> event_loop c result es (list_append result p h))
             else event_loop c result es h))"

text \<open>The loop of \<open>simpleFilter\<close> over product objects (lines 19-21).\<close>

fun object_loop :: "criteria \<Rightarrow> nat \<Rightarrow> pyrecord list \<Rightarrow> heap \<Rightarrow> (py_error + unit) \<times> heap" where
  "object_loop c result [] h = (Inr (), h)"
| "object_loop c result (e # es) h =
     (case getattr e (field c) of
        Inl err \<Rightarrow> (Inl err, h)
      | Inr v \<Rightarrow>
         (case apply_operator (operator c) v (cvalue c) of
            Inl err \<Rightarrow> (Inl err, h)
          | Inr b \<Rightarrow>
             if b then
               (case getattr e ''productId'' of
                  Inl err \<Rightarrow> (Inl err, h)
                | Inr p \<Rightarrow> object_loop c result es (list_append result p h))
             else object_loop c result es h))"

definition simpleFilter :: "nat \<Rightarrow> criteria \<Rightarrow> heap \<Rightarrow> (py_error + nat) \<times> heap" where
  "simpleFilter result c h =
     (case (if event c then event_loop c result (elements c) h
            else object_loop c result (elements c) h) of
        (Inl err, h') \<Rightarrow> (Inl err, h')
      | (Inr _, h') \<Rightarrow> (Inr result, h'))"

text \<open>
  \<open>list(set(result))\<close> builds a new list that holds each value of \<open>result\<close> once.
  The order in which Python enumerates a set is an implementation detail: CPython follows
  its hash table, so that \<open>list(set([2, 4, 3]))\<close> is \<open>[2, 3, 4]\<close>, and for
  strings the order changes from one run to the next. The model lists the values in the
  order of their last occurrence (\<open>[2, 4, 3]\<close> stays as it is). The list of the model
  and the list of the code hold the same values, each once; they can differ in order, and
  so can a table printed after an OR step. Every statement below about a list that
  \<open>orFilter\<close> returns is about the set of its items or about their distinctness.
\<close>

definition orFilter :: "nat \<Rightarrow> criteria \<Rightarrow> heap \<Rightarrow> (py_error + nat) \<times> heap" where
  "orFilter result c h =
     (case simpleFilter result c h of
        (Inl err, h') \<Rightarrow> (Inl err, h')
      | (Inr _, h') \<Rightarrow>
          (case new_list (remdups (cells h' result)) h' of
             (r, h'') \<Rightarrow> (Inr r, h'')))"

text \<open>The loop of \<open>andFilter\<close> (lines 33-35), over the items of the copy \<open>temp2\<close>.\<close>

fun and_loop :: "nat \<Rightarrow> nat \<Rightarrow> pyval list \<Rightarrow> heap \<Rightarrow> (py_error + unit) \<times> heap" where
  "and_loop result temp [] h = (Inr (), h)"
| "and_loop result temp (e # es) h =
     (if e \<notin> set (cells h temp) then
        (case list_remove result e h of
           Inl err \<Rightarrow> (Inl err, h)
         | Inr h' \<Rightarrow> and_loop result temp es h')
      else and_loop result temp es h)"

definition andFilter :: "nat \<Rightarrow> criteria \<Rightarrow> heap \<Rightarrow> (py_error + nat) \<times> heap" where
  "andFilter result c h =
     (case new_list [] h of
        (fresh, h0) \<Rightarrow>
          (case simpleFilter fresh c h0 of
             (Inl err, h1) \<Rightarrow> (Inl err, h1)
           | (Inr temp, h1) \<Rightarrow>
               (case new_list (cells h1 result) h1 of
                  (temp2, h2) \<Rightarrow>
                    (case and_loop result temp (cells h2 temp2) h2 of
                       (Inl err, h3) \<Rightarrow> (Inl err, h3)
                     | (Inr _, h3) \<Rightarrow> (Inr result, h3)))))"

section \<open>\<open>filterProducts\<close>\<close>

text \<open>
  What the ledger reader and the event log reader return:
  \<open>BlockChain.get_all_products()\<close> and \<open>event_logs.get_raw_materials_used_events()\<close>.
\<close>

record ledger =
  get_all_products :: "pyrecord list"
  get_raw_materials_used_events :: "pyrecord list"

text \<open>
  The answers of the user to the prompts of one call of \<open>filterProducts\<close>: the field
  chosen with its operator and value (after the prompt's validation and conversion), and
  the answer to the closing menu.
\<close>

datatype selection =
    Id cmp_op int
  | Name string
  | Owner string
  | CF cmp_op int
  | Ended bool
  | Supplier string
  | Transformer string
  | Raw_Material string

datatype logic = AND | OR

datatype final_action = View_details int | Exit

datatype dialogue =
    Finish selection final_action
  | Add_another_filter selection logic dialogue

fun build_criteria :: "ledger \<Rightarrow> selection \<Rightarrow> criteria" where
  "build_criteria L (Id op v) =
     \<lparr>elements = get_all_products L, cvalue = PInt v, field = ''productId'',
      operator = op, event = False\<rparr>"
| "build_criteria L (Name v) =
     \<lparr>elements = get_all_products L, cvalue = PStr v, field = ''name'',
      operator = op_eq, event = False\<rparr>"
| "build_criteria L (Owner v) =
     \<lparr>elements = get_all_products L, cvalue = PStr v, field = ''address'',
      operator = op_eq, event = False\<rparr>"
| "build_criteria L (CF op v) =
     \<lparr>elements = get_all_products L, cvalue = PInt v, field = ''CF'',
      operator = op, event = False\<rparr>"
| "build_criteria L (Ended v) =
     \<lparr>elements = get_all_products L, cvalue = PBool v, field = ''isEnded'',
      operator = op_eq, event = False\<rparr>"
| "build_criteria L (Supplier v) =
     \<lparr>elements = get_raw_materials_used_events L, cvalue = PStr v, field = ''supplier'',
      operator = op_eq, event = True\<rparr>"
| "build_criteria L (Transformer v) =
     \<lparr>elements = get_raw_materials_used_events L, cvalue = PStr v, field = ''transformer'',
      operator = op_eq, event = True\<rparr>"
| "build_criteria L (Raw_Material v) =
     \<lparr>elements = get_raw_materials_used_events L, cvalue = PStr v, field = ''name'',
      operator = op_eq, event = True\<rparr>"

text \<open>\<open>if len(results) > 0: print_products(results)\<close>: the tables shown to the user,
  each as the list of ids it was printed from.\<close>

definition shown :: "pyval list \<Rightarrow> pyval list list" where
  "shown results = (if length results > 0 then [results] else [])"

text \<open>
  \<open>filterProducts(results, filters)\<close> returns nothing; the model returns the tables it
  printed, in order. The recursive call of line 210 or 212 passes the list the filter
  returned.
\<close>

fun filterProducts ::
  "ledger \<Rightarrow> nat \<Rightarrow> (nat \<Rightarrow> criteria \<Rightarrow> heap \<Rightarrow> (py_error + nat) \<times> heap) \<Rightarrow> dialogue \<Rightarrow> heap
     \<Rightarrow> (py_error + pyval list list) \<times> heap" where
  "filterProducts L results filters (Finish sel act) h =
     (case filters results (build_criteria L sel) h of
        (Inl err, h') \<Rightarrow> (Inl err, h')
      | (Inr res, h') \<Rightarrow> (Inr (shown (cells h' res)), h'))"
| "filterProducts L results filters (Add_another_filter sel lg rest) h =
     (case filters results (build_criteria L sel) h of
        (Inl err, h') \<Rightarrow> (Inl err, h')
      | (Inr res, h') \<Rightarrow>
          (case filterProducts L res (if lg = AND then andFilter else orFilter) rest h' of
             (Inl err, h'') \<Rightarrow> (Inl err, h'')
           | (Inr out, h'') \<Rightarrow> (Inr (shown (cells h' res) @ out), h'')))"

text \<open>
  The default value of the parameter \<open>results\<close> is the list object that the
  \<open>def\<close> statement creates once, when the module is loaded. \<open>module_loaded\<close> is the
  store after loading: that one list, empty, at \<open>default_results\<close>.
  \<open>search\<close> is the menu action of \<open>main.py\<close>, the call \<open>filterProducts()\<close> with
  both defaults.
\<close>

definition default_results :: nat where
  "default_results = 0"

definition module_loaded :: heap where
  "module_loaded = \<lparr>cells = (\<lambda>_. []), top = 1\<rparr>"

definition search :: "ledger \<Rightarrow> dialogue \<Rightarrow> heap \<Rightarrow> (py_error + pyval list list) \<times> heap" where
  "search L d h = filterProducts L default_results simpleFilter d h"

section \<open>Standalone evaluation and what a scan does, record by record\<close>

text \<open>
  \<open>evaluate c\<close> is the call \<open>simpleFilter([], criteria)\<close> of line 31: the criterion
  evaluated on a new empty list, in a store that holds nothing else. It yields the items
  of the list returned, or the exception.
\<close>

definition evaluate :: "criteria \<Rightarrow> py_error + pyval list" where
  "evaluate c =
     (case new_list [] \<lparr>cells = (\<lambda>_. []), top = 0\<rparr> of
        (fresh, h0) \<Rightarrow>
          (case simpleFilter fresh c h0 of
             (Inl err, h1) \<Rightarrow> Inl err
           | (Inr temp, h1) \<Rightarrow> Inr (cells h1 temp)))"

text \<open>
  One iteration of either loop of \<open>simpleFilter\<close>, seen from outside: the exception it
  raises, or the items it appends (none, or the record's product id).
\<close>

definition record_step :: "criteria \<Rightarrow> pyrecord \<Rightarrow> py_error + pyval list" where
  "record_step c e =
     (case (if event c then args_getitem e (field c) else getattr e (field c)) of
        Inl err \<Rightarrow> Inl err
      | Inr v \<Rightarrow>
         (case apply_operator (operator c) v (cvalue c) of
            Inl err \<Rightarrow> Inl err
          | Inr b \<Rightarrow>
             if b then
               (case (if event c then args_getitem e ''pId'' else getattr e ''productId'') of
                  Inl err \<Rightarrow> Inl err
                | Inr p \<Rightarrow> Inr [p])
             else Inr []))"

text \<open>
  \<open>collected c es\<close>: the items a scan of \<open>es\<close> appends, up to the first record that
  raises. \<open>failure c es\<close>: the exception of that record, if there is one.
\<close>

fun collected :: "criteria \<Rightarrow> pyrecord list \<Rightarrow> pyval list" where
  "collected c [] = []"
| "collected c (e # es) =
     (case record_step c e of Inl err \<Rightarrow> [] | Inr ps \<Rightarrow> ps @ collected c es)"

fun failure :: "criteria \<Rightarrow> pyrecord list \<Rightarrow> py_error option" where
  "failure c [] = None"
| "failure c (e # es) =
     (case record_step c e of Inl err \<Rightarrow> Some err | Inr ps \<Rightarrow> failure c es)"

definition outcome :: "criteria \<Rightarrow> pyrecord list \<Rightarrow> 'a \<Rightarrow> py_error + 'a" where
  "outcome c es x = (case failure c es of None \<Rightarrow> Inr x | Some err \<Rightarrow> Inl err)"

text \<open>The store with the list at \<open>r\<close> replaced, and the store with one more list.\<close>

definition stored :: "nat \<Rightarrow> pyval list \<Rightarrow> heap \<Rightarrow> heap" where
  "stored r xs h = h\<lparr>cells := (cells h)(r := xs)\<rparr>"

definition allocated :: "pyval list \<Rightarrow> heap \<Rightarrow> heap" where
  "allocated xs h = h\<lparr>cells := (cells h)(top h := xs), top := Suc (top h)\<rparr>"

section \<open>Example data\<close>

text \<open>
  A product object with the attributes \<open>print_products\<close> reads, and a raw-material-used
  event with the keys \<open>filterProducts\<close> filters on.
\<close>

definition product :: "int \<Rightarrow> string \<Rightarrow> string \<Rightarrow> int \<Rightarrow> bool \<Rightarrow> pyrecord" where
  "product i n a cf ended =
     [''productId'' \<mapsto> PInt i, ''name'' \<mapsto> PStr n, ''address'' \<mapsto> PStr a,
      ''CF'' \<mapsto> PInt cf, ''isEnded'' \<mapsto> PBool ended]"

definition raw_material_used :: "int \<Rightarrow> string \<Rightarrow> string \<Rightarrow> string \<Rightarrow> pyrecord" where
  "raw_material_used p s t n =
     [''pId'' \<mapsto> PInt p, ''supplier'' \<mapsto> PStr s, ''transformer'' \<mapsto> PStr t,
      ''name'' \<mapsto> PStr n]"

text \<open>Four products, and three events that all refer to product 7.\<close>

definition example_ledger :: ledger where
  "example_ledger =
     \<lparr>get_all_products =
        [product 1 ''flour'' ''0xA'' 50 False, product 2 ''bread'' ''0xB'' 120 False,
         product 3 ''cake'' ''0xB'' 80 True, product 4 ''pie'' ''0xC'' 200 False],
      get_raw_materials_used_events =
        [raw_material_used 7 ''0xS1'' ''0xT'' ''wheat'',
         raw_material_used 7 ''0xS2'' ''0xT'' ''salt'',
         raw_material_used 7 ''0xS1'' ''0xT'' ''yeast'']\<rparr>"

text \<open>A carbon-footprint criterion over two products, the second of which carries a
  string where the number should be.\<close>

definition cf_with_bad_record :: criteria where
  "cf_with_bad_record =
     \<lparr>elements =
        [product 1 ''flour'' ''0xA'' 50 False,
         (product 2 ''bread'' ''0xB'' 120 False)(''CF'' \<mapsto> PStr ''unknown'')],
      cvalue = PInt 10, field = ''CF'', operator = op_ge, event = False\<rparr>"


text \<open>A store that holds one list, at address 0.\<close>

definition one_list :: "pyval list \<Rightarrow> heap" where
  "one_list xs = \<lparr>cells = (\<lambda>_. [])(0 := xs), top = 1\<rparr>"

section \<open>The store: basic facts\<close>

lemma cells_stored [simp]: "cells (stored r xs h) a = (if a = r then xs else cells h a)"
  by (simp add: stored_def)

lemma top_stored [simp]: "top (stored r xs h) = top h"
  by (simp add: stored_def)

lemma cells_allocated [simp]:
  "cells (allocated xs h) a = (if a = top h then xs else cells h a)"
  by (simp add: allocated_def)

lemma top_allocated [simp]: "top (allocated xs h) = Suc (top h)"
  by (simp add: allocated_def)

lemma heap_eqI: "(\<And>a. cells h a = cells h' a) \<Longrightarrow> top h = top h' \<Longrightarrow> h = (h' :: heap)"
  by (rule heap.equality) (simp_all add: fun_eq_iff)

lemma stored_same [simp]: "stored r (cells h r) h = h"
  by (rule heap_eqI) simp_all

lemma stored_stored [simp]: "stored r ys (stored r xs h) = stored r ys h"
  by (rule heap_eqI) simp_all

lemma list_append_stored: "list_append r x h = stored r (cells h r @ [x]) h"
  by (simp add: list_append_def stored_def)

lemma list_remove_stored:
  "list_remove r x h =
     (if x \<in> set (cells h r) then Inr (stored r (remove1 x (cells h r)) h) else Inl ValueError)"
  by (simp add: list_remove_def stored_def)

lemma new_list_allocated: "new_list xs h = (top h, allocated xs h)"
  by (simp add: new_list_def allocated_def)

section \<open>What the three filters compute\<close>

text \<open>Both loops append \<open>collected\<close> to the list and end as \<open>failure\<close> says.\<close>

lemma event_loop_eq:
  "event c \<Longrightarrow>
   event_loop c r es h = (outcome c es (), stored r (cells h r @ collected c es) h)"
proof (induction es arbitrary: h)
  case Nil
  show ?case by (simp add: outcome_def)
next
  case (Cons e es)
  then show ?case
    by (simp add: outcome_def record_step_def list_append_stored split: sum.splits)
qed

lemma object_loop_eq:
  "\<not> event c \<Longrightarrow>
   object_loop c r es h = (outcome c es (), stored r (cells h r @ collected c es) h)"
proof (induction es arbitrary: h)
  case Nil
  show ?case by (simp add: outcome_def)
next
  case (Cons e es)
  then show ?case
    by (simp add: outcome_def record_step_def list_append_stored split: sum.splits)
qed

lemma simpleFilter_eq:
  "simpleFilter r c h =
     (outcome c (elements c) r, stored r (cells h r @ collected c (elements c)) h)"
  by (cases "event c")
     (simp_all add: simpleFilter_def event_loop_eq object_loop_eq outcome_def split: option.splits)

lemma evaluate_eq: "evaluate c = outcome c (elements c) (collected c (elements c))"
  by (simp add: evaluate_def new_list_allocated simpleFilter_eq outcome_def split: option.splits)

lemma evaluate_Inr:
  "evaluate c = Inr ms \<longleftrightarrow> failure c (elements c) = None \<and> ms = collected c (elements c)"
  by (auto simp: evaluate_eq outcome_def split: option.splits)

lemma evaluate_Inl: "evaluate c = Inl err \<longleftrightarrow> failure c (elements c) = Some err"
  by (auto simp: evaluate_eq outcome_def split: option.splits)

text \<open>
  The loop of \<open>andFilter\<close> runs over a copy of the list it shrinks. When it has handled
  the items \<open>pre\<close>, all of which it kept, the list is \<open>pre\<close> followed by the items
  still to come: so \<open>remove\<close>, which deletes the first occurrence, deletes the very item
  the loop is at, and never raises.
\<close>

lemma and_loop_eq:
  "result \<noteq> temp \<Longrightarrow> cells h result = pre @ es \<Longrightarrow> set pre \<subseteq> set (cells h temp) \<Longrightarrow>
   and_loop result temp es h =
     (Inr (), stored result (pre @ filter (\<lambda>x. x \<in> set (cells h temp)) es) h)"
proof (induction es arbitrary: h pre)
  case Nil
  then have "stored result (pre @ filter (\<lambda>x. x \<in> set (cells h temp)) []) h = h"
    by (intro heap_eqI) auto
  then show ?case by simp
next
  case (Cons e es)
  show ?case
  proof (cases "e \<in> set (cells h temp)")
    case True
    have "and_loop result temp es h =
      (Inr (), stored result ((pre @ [e]) @ filter (\<lambda>x. x \<in> set (cells h temp)) es) h)"
      using Cons.prems True by (intro Cons.IH) auto
    with True show ?thesis by simp
  next
    case False
    let ?h' = "stored result (pre @ es) h"
    from False Cons.prems have notin: "e \<notin> set pre" by auto
    have rm: "list_remove result e h = Inr ?h'"
      using Cons.prems notin by (simp add: list_remove_stored remove1_append)
    have "and_loop result temp es ?h' =
      (Inr (), stored result (pre @ filter (\<lambda>x. x \<in> set (cells ?h' temp)) es) ?h')"
      using Cons.prems by (intro Cons.IH) auto
    with False rm Cons.prems(1) show ?thesis by simp
  qed
qed

lemma andFilter_eq:
  assumes "r < top h"
  shows "andFilter r c h =
     (case failure c (elements c) of
        Some err \<Rightarrow> (Inl err, allocated (collected c (elements c)) h)
      | None \<Rightarrow>
          (Inr r,
           stored r (filter (\<lambda>x. x \<in> set (collected c (elements c))) (cells h r))
             (allocated (cells h r) (allocated (collected c (elements c)) h))))"
proof -
  let ?ms = "collected c (elements c)"
  have h1: "stored (top h) ?ms (allocated [] h) = allocated ?ms h"
    by (rule heap_eqI) simp_all
  show ?thesis
  proof (cases "failure c (elements c)")
    case (Some err)
    then show ?thesis
      by (simp add: andFilter_def new_list_allocated simpleFilter_eq outcome_def h1)
  next
    case None
    let ?h2 = "allocated (cells h r) (allocated ?ms h)"
    have ne: "r \<noteq> top h" "r \<noteq> Suc (top h)" using assms by auto
    have loop: "and_loop r (top h) (cells h r) ?h2 =
        (Inr (), stored r ([] @ filter (\<lambda>x. x \<in> set (cells ?h2 (top h))) (cells h r)) ?h2)"
      using ne by (intro and_loop_eq) auto
    show ?thesis
      using None ne loop
      by (simp add: andFilter_def new_list_allocated simpleFilter_eq outcome_def h1)
  qed
qed

lemma orFilter_eq:
  "orFilter r c h =
     (case failure c (elements c) of
        Some err \<Rightarrow> (Inl err, stored r (cells h r @ collected c (elements c)) h)
      | None \<Rightarrow>
          (Inr (top h),
           allocated (remdups (cells h r @ collected c (elements c)))
             (stored r (cells h r @ collected c (elements c)) h)))"
  by (simp add: orFilter_def simpleFilter_eq outcome_def new_list_allocated
           split: option.splits)

section \<open>Which records a scan collects\<close>

lemma record_step_event:
  "event c \<Longrightarrow>
   record_step c e = Inr [p] \<longleftrightarrow>
     e ''pId'' = Some p \<and>
     (\<exists>v. e (field c) = Some v \<and> apply_operator (operator c) v (cvalue c) = Inr True)"
  by (auto simp: record_step_def args_getitem_def split: option.splits sum.splits)

lemma record_step_object:
  "\<not> event c \<Longrightarrow>
   record_step c e = Inr [p] \<longleftrightarrow>
     e ''productId'' = Some p \<and>
     (\<exists>v. e (field c) = Some v \<and> apply_operator (operator c) v (cvalue c) = Inr True)"
  by (auto simp: record_step_def getattr_def split: option.splits sum.splits)

lemma record_step_cases:
  "record_step c e = Inr ps \<Longrightarrow> ps = [] \<or> (\<exists>p. ps = [p])"
  by (auto simp: record_step_def split: option.splits sum.splits if_splits)

lemma collected_iff:
  "failure c es = None \<Longrightarrow>
   p \<in> set (collected c es) \<longleftrightarrow> (\<exists>e \<in> set es. record_step c e = Inr [p])"
proof (induction es)
  case Nil
  show ?case by simp
next
  case (Cons e es)
  from Cons.prems obtain ps where ps: "record_step c e = Inr ps" and f: "failure c es = None"
    by (auto split: sum.splits)
  from record_step_cases [OF ps] Cons.IH [OF f] ps show ?case
    by auto
qed


text \<open>Unfolding the example data and the calls, to run the code on them.\<close>

lemmas example_defs =
  example_ledger_def product_def raw_material_used_def cf_with_bad_record_def one_list_def
  module_loaded_def default_results_def PBool_def

lemmas run_defs =
  simpleFilter_def orFilter_def andFilter_def new_list_def list_append_def list_remove_def
  getattr_def args_getitem_def search_def shown_def evaluate_def

text \<open>The standalone evaluation does not depend on the store it runs in: on any empty
  list of any store, \<open>simpleFilter\<close> returns what \<open>evaluate\<close> returns.\<close>

lemma evaluate_any_store:
  "cells h r = [] \<Longrightarrow> simpleFilter r c h = (Inr r', h') \<Longrightarrow> evaluate c = Inr (cells h' r')"
  by (auto simp: simpleFilter_eq evaluate_eq outcome_def split: option.splits)

section \<open>The claims\<close>

text \<open>
  C1 (as amended). Nothing validates a criterion before the scan and there is no
  \<open>ConfigurationError\<close>. A criterion fails only while a record is scanned. When the
  first record lacks the field, \<open>simpleFilter\<close> raises at that record
  (\<open>KeyError\<close> on an event, \<open>AttributeError\<close> on a product) and leaves the store
  as it was; when an ordering operator meets an integer and a string there, it raises
  \<open>TypeError\<close> likewise. The prompt layer pairs an ordering operator only with the
  integer fields \<open>productId\<close> and \<open>CF\<close>.
\<close>

theorem simpleFilter_first_record_error:
  "elements c = e # es \<Longrightarrow>
   (e (field c) = None \<longrightarrow>
      simpleFilter r c h = (Inl (if event c then KeyError else AttributeError), h)) \<and>
   (\<forall>i s. operator c \<noteq> op_eq \<and>
      (e (field c) = Some (PInt i) \<and> cvalue c = PStr s \<or>
       e (field c) = Some (PStr s) \<and> cvalue c = PInt i) \<longrightarrow>
      simpleFilter r c h = (Inl TypeError, h)) \<and>
   (\<forall>L sel. operator (build_criteria L sel) \<noteq> op_eq \<longrightarrow>
      field (build_criteria L sel) \<in> {''productId'', ''CF''} \<and>
      (\<exists>v. cvalue (build_criteria L sel) = PInt v))"
proof (intro conjI allI impI)
  assume "elements c = e # es" "e (field c) = None"
  then show "simpleFilter r c h = (Inl (if event c then KeyError else AttributeError), h)"
    by (simp add: simpleFilter_eq outcome_def record_step_def getattr_def args_getitem_def)
next
  fix i s
  assume "elements c = e # es"
    and "operator c \<noteq> op_eq \<and>
      (e (field c) = Some (PInt i) \<and> cvalue c = PStr s \<or>
       e (field c) = Some (PStr s) \<and> cvalue c = PInt i)"
  then show "simpleFilter r c h = (Inl TypeError, h)"
    by (cases "operator c")
       (auto simp: simpleFilter_eq outcome_def record_step_def getattr_def args_getitem_def)
next
  fix L sel
  assume "operator (build_criteria L sel) \<noteq> op_eq"
  then show "field (build_criteria L sel) \<in> {''productId'', ''CF''}"
    by (cases sel) simp_all
next
  fix L sel
  assume "operator (build_criteria L sel) \<noteq> op_eq"
  then show "\<exists>v. cvalue (build_criteria L sel) = PInt v"
    by (cases sel) simp_all
qed

text \<open>
  On the example ledger: the owner criterion with a field name no product has raises
  \<open>AttributeError\<close> at the first product, and the owner's address compared by
  \<open>greater\<close> with the integer field \<open>CF\<close> raises \<open>TypeError\<close>; the only
  ordering criteria the prompts build are on \<open>productId\<close> and \<open>CF\<close>.
\<close>

theorem simpleFilter_first_record_error_witness:
  "simpleFilter 0 (build_criteria example_ledger (Owner ''0xA'') \<lparr>field := ''ownerAddress''\<rparr>)
     module_loaded = (Inl AttributeError, module_loaded) \<and>
   simpleFilter 0 (build_criteria example_ledger (Owner ''0xA'')
       \<lparr>field := ''CF'', operator := op_gt\<rparr>)
     module_loaded = (Inl TypeError, module_loaded) \<and>
   field (build_criteria example_ledger (CF op_gt 80)) \<in> {''productId'', ''CF''}"
  using
    simpleFilter_first_record_error
      [of "build_criteria example_ledger (Owner ''0xA'') \<lparr>field := ''ownerAddress''\<rparr>"
          "product 1 ''flour'' ''0xA'' 50 False" _ 0 module_loaded]
    simpleFilter_first_record_error
      [of "build_criteria example_ledger (Owner ''0xA'') \<lparr>field := ''CF'', operator := op_gt\<rparr>"
          "product 1 ''flour'' ''0xA'' 50 False" _ 0 module_loaded]
  by (simp add: example_ledger_def product_def)

text \<open>
  C1 as stated fails: the owner's address with the operator \<open>greater\<close> is not rejected.
  The scan compares the addresses as strings and returns the products 2, 3 and 4, whose
  owners \<open>0xB\<close> and \<open>0xC\<close> come after \<open>0xA\<close>.
\<close>

theorem ordering_on_address_not_rejected:
  "fst (simpleFilter 0 (build_criteria example_ledger (Owner ''0xA'') \<lparr>operator := op_gt\<rparr>)
          module_loaded) = Inr 0 \<and>
   cells (snd (simpleFilter 0 (build_criteria example_ledger (Owner ''0xA'') \<lparr>operator := op_gt\<rparr>)
          module_loaded)) 0 = [PInt 2, PInt 3, PInt 4]"
  by (simp add: example_defs run_defs)

text \<open>
  C2 fails on the code. \<open>simpleFilter\<close> appends one id for every matching record and
  removes no duplicate: the first criterion of a search, on a supplier with two events
  for product 7, returns the list 7, 7.
\<close>

theorem simpleFilter_duplicates:
  "simpleFilter default_results (build_criteria example_ledger (Supplier ''0xS1'')) module_loaded
     = (Inr default_results, one_list [PInt 7, PInt 7])"
  by (simp add: example_defs run_defs)

text \<open>The OR step removes duplicates; the AND step keeps those of the list it is given.\<close>

lemma orFilter_distinct:
  "orFilter r c h = (Inr r', h') \<Longrightarrow> distinct (cells h' r')"
  by (auto simp: orFilter_eq split: option.splits)

lemma andFilter_distinct:
  "r < top h \<Longrightarrow> distinct (cells h r) \<Longrightarrow> andFilter r c h = (Inr r', h') \<Longrightarrow>
   distinct (cells h' r')"
  by (auto simp: andFilter_eq split: option.splits)

lemma andFilter_keeps_duplicates:
  "fst (andFilter 0 (build_criteria example_ledger (Id op_ge 1)) (one_list [PInt 1, PInt 1]))
     = Inr 0 \<and>
   cells (snd (andFilter 0 (build_criteria example_ledger (Id op_ge 1))
     (one_list [PInt 1, PInt 1]))) 0 = [PInt 1, PInt 1]"
  by (simp add: andFilter_eq one_list_def)
     (simp add: example_ledger_def product_def record_step_def getattr_def)

text \<open>
  C3 fails on the code. The default \<open>results=[]\<close> is one list for all calls, and the
  first filter of a search appends to it in place. A first search for product 1 leaves
  that id in the default list; a second search, for the id 9 that no product has, starts
  from it and shows product 1.
\<close>

theorem search_twice_shares_results:
  "(case search example_ledger (Finish (Id op_eq 1) Exit) module_loaded of
      (out1, h1) \<Rightarrow>
        out1 = Inr [[PInt 1]] \<and> cells h1 default_results = [PInt 1] \<and>
        fst (search example_ledger (Finish (Id op_eq 9) Exit) h1) = Inr [[PInt 1]])"
  by (simp add: example_defs run_defs)

text \<open>
  C4 (as amended). When the evaluation raises, the list the step was given keeps every
  item it had, in order. An AND step leaves it exactly as it was, since it evaluates on a
  list of its own; a first step or an OR step leaves after the old items the ids of the
  matching records scanned before the one that raised.
\<close>

theorem failed_step_effect:
  "(simpleFilter r c h = (Inl err, h') \<longrightarrow> cells h' r = cells h r @ collected c (elements c)) \<and>
   (orFilter r c h = (Inl err, h') \<longrightarrow> cells h' r = cells h r @ collected c (elements c)) \<and>
   (r < top h \<and> andFilter r c h = (Inl err, h') \<longrightarrow> cells h' r = cells h r)"
  by (auto simp: simpleFilter_eq orFilter_eq andFilter_eq split: option.splits)

text \<open>
  On a list that holds product 5, with the carbon-footprint criterion whose second record
  cannot be compared: all three steps raise \<open>TypeError\<close>; the first step and the OR
  step leave 5, 1 in the list, the AND step leaves 5.
\<close>

theorem failed_step_effect_witness:
  "simpleFilter 0 cf_with_bad_record (one_list [PInt 5]) =
     (Inl TypeError, snd (simpleFilter 0 cf_with_bad_record (one_list [PInt 5]))) \<and>
   cells (snd (simpleFilter 0 cf_with_bad_record (one_list [PInt 5]))) 0 = [PInt 5, PInt 1] \<and>
   orFilter 0 cf_with_bad_record (one_list [PInt 5]) =
     (Inl TypeError, snd (orFilter 0 cf_with_bad_record (one_list [PInt 5]))) \<and>
   cells (snd (orFilter 0 cf_with_bad_record (one_list [PInt 5]))) 0 = [PInt 5, PInt 1] \<and>
   andFilter 0 cf_with_bad_record (one_list [PInt 5]) =
     (Inl TypeError, snd (andFilter 0 cf_with_bad_record (one_list [PInt 5]))) \<and>
   cells (snd (andFilter 0 cf_with_bad_record (one_list [PInt 5]))) 0 = [PInt 5]"
proof -
  let ?c = cf_with_bad_record and ?h = "one_list [PInt 5]"
  have f: "failure ?c (elements ?c) = Some TypeError"
    by (simp add: cf_with_bad_record_def product_def record_step_def getattr_def PBool_def)
  have m: "collected ?c (elements ?c) = [PInt 1]"
    by (simp add: cf_with_bad_record_def product_def record_step_def getattr_def PBool_def)
  have t: "0 < top ?h" and old: "cells ?h 0 = [PInt 5]"
    by (simp_all add: one_list_def)
  have s: "simpleFilter 0 ?c ?h = (Inl TypeError, snd (simpleFilter 0 ?c ?h))"
    by (simp add: simpleFilter_eq outcome_def f)
  have o: "orFilter 0 ?c ?h = (Inl TypeError, snd (orFilter 0 ?c ?h))"
    by (simp add: orFilter_eq f)
  have a: "andFilter 0 ?c ?h = (Inl TypeError, snd (andFilter 0 ?c ?h))"
    by (simp add: andFilter_eq [OF t] f)
  show ?thesis
    using failed_step_effect [of 0 ?c ?h TypeError "snd (simpleFilter 0 ?c ?h)"]
      failed_step_effect [of 0 ?c ?h TypeError "snd (orFilter 0 ?c ?h)"]
      failed_step_effect [of 0 ?c ?h TypeError "snd (andFilter 0 ?c ?h)"]
      s o a t old m
    by simp
qed

text \<open>
  C4 as stated fails: an OR step that raises at the second record has already appended
  product 1 to the list it was given, which held only product 5.
\<close>

theorem failed_orFilter_changes_list:
  "fst (orFilter 0 cf_with_bad_record (one_list [PInt 5])) = Inl TypeError \<and>
   cells (one_list [PInt 5]) 0 = [PInt 5] \<and>
   cells (snd (orFilter 0 cf_with_bad_record (one_list [PInt 5]))) 0 = [PInt 5, PInt 1]"
  by (simp add: example_defs run_defs)

text \<open>
  C5. When the standalone evaluation of the criterion returns the ids \<open>ms\<close>, the AND
  step on a list of the store returns, and the list it returns holds exactly the ids
  that the given list held and that are among \<open>ms\<close>.
\<close>

theorem andFilter_intersection:
  "r < top h \<Longrightarrow> evaluate c = Inr ms \<Longrightarrow>
   \<exists>h'. andFilter r c h = (Inr r, h') \<and> set (cells h' r) = set (cells h r) \<inter> set ms"
  by (auto simp: andFilter_eq evaluate_Inr)

text \<open>The list 1, 2, 3, 4 and the criterion \<open>CF \<ge> 100\<close>, which products 2 and 4
  meet: the AND step returns the ids 2 and 4.\<close>

theorem andFilter_intersection_witness:
  "0 < top (one_list [PInt 1, PInt 2, PInt 3, PInt 4]) \<and>
   evaluate (build_criteria example_ledger (CF op_ge 100)) = Inr [PInt 2, PInt 4] \<and>
   (\<exists>h'. andFilter 0 (build_criteria example_ledger (CF op_ge 100))
            (one_list [PInt 1, PInt 2, PInt 3, PInt 4]) = (Inr 0, h') \<and>
         set (cells h' 0) = {PInt 2, PInt 4})"
proof -
  have t: "0 < top (one_list [PInt 1, PInt 2, PInt 3, PInt 4])"
    by (simp add: one_list_def)
  have e: "evaluate (build_criteria example_ledger (CF op_ge 100)) = Inr [PInt 2, PInt 4]"
    by (simp add: example_defs run_defs)
  have i: "set (cells (one_list [PInt 1, PInt 2, PInt 3, PInt 4]) 0) \<inter> set [PInt 2, PInt 4]
      = {PInt 2, PInt 4}"
    by (auto simp: one_list_def)
  show ?thesis
    using andFilter_intersection [OF t e] t e unfolding i by simp
qed

text \<open>
  C6. When the standalone evaluation of the criterion returns the ids \<open>ms\<close>, the OR
  step returns, and the list it returns holds exactly the ids that the given list held
  or that are among \<open>ms\<close>; on an empty list, exactly the ids of \<open>ms\<close>.
\<close>

theorem orFilter_union:
  "evaluate c = Inr ms \<Longrightarrow>
   \<exists>r' h'. orFilter r c h = (Inr r', h') \<and>
     set (cells h' r') = set (cells h r) \<union> set ms \<and>
     (cells h r = [] \<longrightarrow> set (cells h' r') = set ms)"
  by (auto simp: orFilter_eq evaluate_Inr)

text \<open>The criterion \<open>productId = 3\<close>, on the list 2, 4 and on the empty list.\<close>

theorem orFilter_union_witness:
  "evaluate (build_criteria example_ledger (Id op_eq 3)) = Inr [PInt 3] \<and>
   (\<exists>r' h'. orFilter 0 (build_criteria example_ledger (Id op_eq 3)) (one_list [PInt 2, PInt 4])
              = (Inr r', h') \<and>
            set (cells h' r') = {PInt 2, PInt 4, PInt 3}) \<and>
   (\<exists>r' h'. orFilter 0 (build_criteria example_ledger (Id op_eq 3)) (one_list [])
              = (Inr r', h') \<and>
            set (cells h' r') = {PInt 3})"
proof -
  have e: "evaluate (build_criteria example_ledger (Id op_eq 3)) = Inr [PInt 3]"
    by (simp add: example_defs run_defs)
  have c1: "cells (one_list [PInt 2, PInt 4]) 0 = [PInt 2, PInt 4]"
    and c2: "cells (one_list []) 0 = []"
    by (simp_all add: one_list_def)
  have u: "set [PInt 2, PInt 4] \<union> set [PInt 3] = {PInt 2, PInt 4, PInt 3}"
    by auto
  show ?thesis
    using orFilter_union [OF e, of 0 "one_list [PInt 2, PInt 4]"]
      orFilter_union [OF e, of 0 "one_list []"] e
    unfolding c1 c2 u by simp
qed

text \<open>
  C7. For a criterion over the event history whose standalone evaluation returns, a value
  is among the ids returned exactly when some event has it under \<open>pId\<close> and has under
  the criterion's field a value that passes the operator test.
\<close>

theorem evaluate_event_history:
  "event c \<Longrightarrow> evaluate c = Inr ms \<Longrightarrow>
   p \<in> set ms \<longleftrightarrow>
     (\<exists>e \<in> set (elements c). e ''pId'' = Some p \<and>
        (\<exists>v. e (field c) = Some v \<and> apply_operator (operator c) v (cvalue c) = Inr True))"
  by (simp add: evaluate_Inr collected_iff record_step_event)

text \<open>
  The three events of the example ledger all refer to product 7 and exactly one of them
  is about salt: the raw-material criterion \<open>salt\<close> returns the one id 7.
\<close>

theorem evaluate_event_history_witness:
  "event (build_criteria example_ledger (Raw_Material ''salt'')) \<and>
   evaluate (build_criteria example_ledger (Raw_Material ''salt'')) = Inr [PInt 7] \<and>
   (\<exists>e \<in> set (elements (build_criteria example_ledger (Raw_Material ''salt''))).
      e ''pId'' = Some (PInt 7) \<and> e ''name'' = Some (PStr ''salt''))"
proof -
  let ?c = "build_criteria example_ledger (Raw_Material ''salt'')"
  have ev: "event ?c" by simp
  have e: "evaluate ?c = Inr [PInt 7]"
    by (simp add: example_defs run_defs)
  have "PInt 7 \<in> set [PInt 7] \<longleftrightarrow>
     (\<exists>e \<in> set (elements ?c). e ''pId'' = Some (PInt 7) \<and>
        (\<exists>v. e (field ?c) = Some v \<and> apply_operator (operator ?c) v (cvalue ?c) = Inr True))"
    by (rule evaluate_event_history [OF ev e])
  then have "\<exists>e \<in> set (elements ?c). e ''pId'' = Some (PInt 7) \<and> e ''name'' = Some (PStr ''salt'')"
    by simp
  with ev e show ?thesis by blast
qed

text \<open>
  C8. After an OR step that returned, the OR step with the same criterion on the list
  returned returns as well, and its list holds the same ids.
\<close>

theorem orFilter_idempotent:
  "orFilter r c h = (Inr r1, h1) \<Longrightarrow>
   \<exists>r2 h2. orFilter r1 c h1 = (Inr r2, h2) \<and> set (cells h2 r2) = set (cells h1 r1)"
proof -
  assume a: "orFilter r c h = (Inr r1, h1)"
  then have f: "failure c (elements c) = None"
    by (auto simp: orFilter_eq split: option.splits)
  from a f have r1: "r1 = top h"
    and h1: "h1 = allocated (remdups (cells h r @ collected c (elements c)))
                    (stored r (cells h r @ collected c (elements c)) h)"
    by (simp_all add: orFilter_eq)
  have c1: "cells h1 r1 = remdups (cells h r @ collected c (elements c))"
    by (simp add: h1 r1)
  have "set (cells (snd (orFilter r1 c h1)) (top h1)) = set (cells h1 r1)"
    using f by (auto simp add: orFilter_eq c1)
  moreover have "orFilter r1 c h1 = (Inr (top h1), snd (orFilter r1 c h1))"
    using f by (simp add: orFilter_eq)
  ultimately show ?thesis by blast
qed

text \<open>The criterion \<open>productId = 3\<close> on the list 2, 4: the first OR step returns a new
  list at address 1, and the second returns a list with the same three ids.\<close>

theorem orFilter_idempotent_witness:
  "orFilter 0 (build_criteria example_ledger (Id op_eq 3)) (one_list [PInt 2, PInt 4]) =
     (Inr 1, snd (orFilter 0 (build_criteria example_ledger (Id op_eq 3))
                    (one_list [PInt 2, PInt 4]))) \<and>
   (\<exists>r2 h2.
      orFilter 1 (build_criteria example_ledger (Id op_eq 3))
        (snd (orFilter 0 (build_criteria example_ledger (Id op_eq 3))
                (one_list [PInt 2, PInt 4]))) = (Inr r2, h2) \<and>
      set (cells h2 r2) = {PInt 2, PInt 4, PInt 3})"
proof -
  let ?c = "build_criteria example_ledger (Id op_eq 3)" and ?h = "one_list [PInt 2, PInt 4]"
  have f: "failure ?c (elements ?c) = None"
    by (simp add: example_ledger_def product_def record_step_def getattr_def)
  have m: "collected ?c (elements ?c) = [PInt 3]"
    by (simp add: example_ledger_def product_def record_step_def getattr_def)
  have t: "top ?h = 1" and old: "cells ?h 0 = [PInt 2, PInt 4]"
    by (simp_all add: one_list_def)
  have a: "orFilter 0 ?c ?h = (Inr 1, snd (orFilter 0 ?c ?h))"
    by (simp add: orFilter_eq f t del: build_criteria.simps)
  have s: "set (cells (snd (orFilter 0 ?c ?h)) 1) = {PInt 2, PInt 4, PInt 3}"
    by (auto simp add: orFilter_eq f m t old simp del: build_criteria.simps)
  show ?thesis
    using orFilter_idempotent [OF a] a unfolding s by simp
qed

text \<open>
  C9. An AND step that returns, on a list of the store, returns the reference it was
  given; the list at that reference now holds, in their order, the items it held that
  are among the ids of the standalone evaluation, and no other list that existed before
  the step has changed.
\<close>

theorem andFilter_in_place:
  "r < top h \<Longrightarrow> andFilter r c h = (Inr r', h') \<Longrightarrow>
   r' = r \<and>
   (\<exists>ms. evaluate c = Inr ms \<and> cells h' r = filter (\<lambda>x. x \<in> set ms) (cells h r)) \<and>
   (\<forall>a. a < top h \<and> a \<noteq> r \<longrightarrow> cells h' a = cells h a)"
  by (auto simp: andFilter_eq evaluate_Inr split: option.splits)

text \<open>The list 1, 2, 3, 4 at address 0 and the criterion \<open>CF \<ge> 100\<close>: the step
  returns address 0, where the list is now 2, 4.\<close>

theorem andFilter_in_place_witness:
  "0 < top (one_list [PInt 1, PInt 2, PInt 3, PInt 4]) \<and>
   andFilter 0 (build_criteria example_ledger (CF op_ge 100))
       (one_list [PInt 1, PInt 2, PInt 3, PInt 4]) =
     (Inr 0, snd (andFilter 0 (build_criteria example_ledger (CF op_ge 100))
                    (one_list [PInt 1, PInt 2, PInt 3, PInt 4]))) \<and>
   cells (snd (andFilter 0 (build_criteria example_ledger (CF op_ge 100))
                 (one_list [PInt 1, PInt 2, PInt 3, PInt 4]))) 0 = [PInt 2, PInt 4]"
proof -
  let ?c = "build_criteria example_ledger (CF op_ge 100)"
    and ?h = "one_list [PInt 1, PInt 2, PInt 3, PInt 4]"
  have t: "0 < top ?h" and old: "cells ?h 0 = [PInt 1, PInt 2, PInt 3, PInt 4]"
    by (simp_all add: one_list_def)
  have e: "evaluate ?c = Inr [PInt 2, PInt 4]"
    by (simp add: example_defs run_defs)
  then have f: "failure ?c (elements ?c) = None"
    by (simp only: evaluate_Inr)
  have a: "andFilter 0 ?c ?h = (Inr 0, snd (andFilter 0 ?c ?h))"
    by (simp add: andFilter_eq [OF t] f del: build_criteria.simps)
  show ?thesis
    using andFilter_in_place [OF t a] t a e old by auto
qed




end
